theory Spec2Isabelle
  imports Complex_Main "HOL-Library.Sublist"
begin

section \<open>Client connections to the controller (IPython.kernel.clientconnector)\<close>

text \<open>
  A shallow embedding of \<^verbatim>\<open>src/IPython/kernel/clientconnector.py\<close>.

  Conventions of the embedding.
  \<^item> A Twisted deferred is modelled by its outcome: \<open>Inr v\<close> when it fires its callbacks
    with \<open>v\<close>, \<open>Inl e\<close> when it fires its errbacks with the exception \<open>e\<close>. A raised
    exception is \<open>Inl e\<close> as well. Each deferred is resolved before the next operation of
    the connector starts (the way \<^verbatim>\<open>inlineCallbacks\<close> and
    \<^verbatim>\<open>blockingCallFromThread\<close> drive it for one caller).
  \<^item> Code of other modules (\<^verbatim>\<open>fcutil\<close>, \<^verbatim>\<open>clusterdir\<close>, \<^verbatim>\<open>launcher\<close>,
    \<^verbatim>\<open>twistedutil\<close>, the Foolscap \<^verbatim>\<open>Tub\<close>) is a parameter of the model: a record of
    functions that gives the outcome of each external call.
  \<^item> Every external call that a method makes is appended to a trace, so that statements
    about which calls happen, how often and in which order can be made.
  \<^item> A delay is a Python float, an IEEE 754 double: \<^verbatim>\<open>1.5*delay\<close> is the exact
    product rounded to the nearest double.
\<close>

subsection \<open>Exceptions\<close>

datatype error =
    FURLError string
  | ClientConnectorError string
  | ClusterStateError string
  | ClusterDirError string
  | AdapterResolutionError string
  | AttributeError string
  | TypeError string
  | OtherError string

subsection \<open>Formatting of integers (\<^verbatim>\<open>%r\<close> of a plain int)\<close>

fun repr_nat :: "nat \<Rightarrow> string" where
  "repr_nat n =
     (if n < 10 then [''0123456789'' ! n]
      else repr_nat (n div 10) @ [''0123456789'' ! (n mod 10)])"

declare repr_nat.simps [simp del]

definition repr_int :: "int \<Rightarrow> string" where
  "repr_int i = (if i < 0 then ''-'' @ repr_nat (nat (- i)) else repr_nat (nat i))"

subsection \<open>Python floats\<close>

text \<open>
  A Python float is an IEEE 754 double: \<open>Finite m e\<close> is the number \<open>m * 2 ^ e\<close>,
  \<open>Inf neg\<close> is an infinity (the negative one if \<open>neg\<close>) and \<open>NaN\<close> is not a
  number. A double has a significand \<open>m\<close> of at most 53 bits and an exponent \<open>e\<close>
  of at least \<open>-1074\<close>, and is less than \<open>2 ^ 1024\<close> in magnitude. The sign of a zero
  is not kept.
\<close>

datatype pyfloat = Finite int int | Inf bool | NaN

definition float_rat :: "int \<Rightarrow> int \<Rightarrow> rat" where
  "float_rat m e = (if 0 \<le> e then of_int m * 2 ^ nat e else of_int m / 2 ^ nat (- e))"

fun float_positive :: "pyfloat \<Rightarrow> bool" where
  "float_positive (Finite m e) = (0 < m)"
| "float_positive (Inf neg) = (\<not> neg)"
| "float_positive NaN = False"

text \<open>The number of binary digits of a natural number.\<close>

fun bit_length :: "nat \<Rightarrow> nat" where
  "bit_length n = (if n = 0 then 0 else Suc (bit_length (n div 2)))"

declare bit_length.simps [simp del]

text \<open>\<open>m / 2 ^ k\<close> rounded to the nearest integer, a tie going to the even one.\<close>

definition round_half_even :: "int \<Rightarrow> nat \<Rightarrow> int" where
  "round_half_even m k =
     (let q = m div 2 ^ k; r = m mod 2 ^ k
      in if 2 ^ k < 2 * r \<or> (2 * r = 2 ^ k \<and> odd q) then q + 1 else q)"

text \<open>
  The double nearest to the number \<open>m * 2 ^ e\<close> (round to nearest, ties to even): as
  many low bits are dropped as it takes to leave 53 bits and an exponent of at least
  \<open>-1074\<close>; a result of magnitude \<open>2 ^ 1024\<close> or more is an infinity.
\<close>

definition round_double :: "int \<Rightarrow> int \<Rightarrow> pyfloat" where
  "round_double m e =
     (let k = nat (max (int (bit_length (nat \<bar>m\<bar>)) - 53) (- 1074 - e));
          m' = round_half_even m k;
          e' = e + int k
      in if 0 \<le> e' \<and> 2 ^ 1024 \<le> \<bar>m'\<bar> * 2 ^ nat e' then Inf (m < 0) else Finite m' e')"

text \<open>The product of two floats, \<^verbatim>\<open>x * y\<close>.\<close>

fun float_mul :: "pyfloat \<Rightarrow> pyfloat \<Rightarrow> pyfloat" where
  "float_mul NaN y = NaN"
| "float_mul x NaN = NaN"
| "float_mul (Finite m1 e1) (Finite m2 e2) = round_double (m1 * m2) (e1 + e2)"
| "float_mul (Finite m e) (Inf neg) = (if m = 0 then NaN else Inf (neg \<noteq> (m < 0)))"
| "float_mul (Inf neg) (Finite m e) = (if m = 0 then NaN else Inf (neg \<noteq> (m < 0)))"
| "float_mul (Inf neg1) (Inf neg2) = Inf (neg1 \<noteq> neg2)"

subsection \<open>Module constants\<close>

text \<open>\<^verbatim>\<open>DELAY = 0.2\<close>: the double nearest to \<open>2 / 10\<close>.\<close>

definition DELAY :: pyfloat where
  "DELAY = Finite 3602879701896397 (- 54)"

definition MAX_TRIES :: int where
  "MAX_TRIES = 9"

subsection \<open>The connector and its environment\<close>

text \<open>A remote reference is an object; it is modelled by its identity.\<close>

type_synonym ref = nat

datatype tub = Tub nat

text \<open>
  The external calls of the connector, in the order in which they are made:
  \<^verbatim>\<open>log.msg("Connecting [%r]" % attempt)\<close>, \<^verbatim>\<open>find_furl(furl_or_file)\<close>,
  \<^verbatim>\<open>self.tub.getReference(furl)\<close>, \<^verbatim>\<open>log.msg("Connected: %s" % furl_or_file)\<close>,
  \<^verbatim>\<open>sleep_deferred(delay)\<close>, \<^verbatim>\<open>rr.callRemote(name)\<close> and \<^verbatim>\<open>import_item(name)\<close>.
\<close>

datatype event =
    Connecting int
  | FindFurl string
  | GetReference string
  | Connected string
  | Sleep pyfloat
  | CallRemote ref string
  | ImportItem string

text \<open>
  A typed client: the class that was instantiated, the remote reference that was given
  to its constructor, and the attribute \<^verbatim>\<open>tub\<close>, unset until it is assigned.
\<close>

record client =
  client_class :: string
  remote_reference :: ref
  client_tub :: "tub option"

type_synonym client_interface = "ref \<Rightarrow> error + client"

text \<open>
  One snapshot of what lies outside the connector: what \<^verbatim>\<open>fcutil.find_furl\<close> returns
  for a FURL or FURL file, what the Tub's \<^verbatim>\<open>getReference\<close> yields for a FURL, what a
  remote call on a reference yields, and the classes that can be imported by name.
\<close>

record world =
  fcutil_find_furl :: "string \<Rightarrow> error + string"
  tub_getReference :: "string \<Rightarrow> error + ref"
  callRemote :: "ref \<Rightarrow> string \<Rightarrow> error + string"
  importable :: "string \<rightharpoonup> client_interface"

text \<open>
  The instance attributes of \<^verbatim>\<open>AsyncClientConnector\<close> (\<^verbatim>\<open>_remote_refs\<close>,
  \<^verbatim>\<open>tub\<close>, \<^verbatim>\<open>furl\<close>), the number of suspensions so far (\<open>now\<close>, which selects
  the snapshot of the world that the next external call sees) and the trace.
\<close>

record connector =
  remote_refs :: "string \<rightharpoonup> ref"
  tub :: tub
  furl :: "string option"
  now :: nat
  events :: "event list"

definition log_event :: "event \<Rightarrow> connector \<Rightarrow> connector" where
  "log_event e s = s\<lparr>events := events s @ [e]\<rparr>"

text \<open>\<^verbatim>\<open>AsyncClientConnector.__init__\<close>, for a freshly created Tub \<open>t\<close>.\<close>

definition init_connector :: "tub \<Rightarrow> connector" where
  "init_connector t =
     \<lparr>remote_refs = Map.empty, tub = t, furl = None, now = 0, events = []\<rparr>"

subsection \<open>The connection cache\<close>

text \<open>\<^verbatim>\<open>_save_ref\<close>: cache a remote reference by its furl.\<close>

definition save_ref :: "connector \<Rightarrow> ref \<Rightarrow> string \<Rightarrow> ref \<times> connector" where
  "save_ref s r f = (r, s\<lparr>remote_refs := (remote_refs s)(f \<mapsto> r)\<rparr>)"

text \<open>
  \<^verbatim>\<open>get_reference\<close>: the cached reference if there is one; otherwise the Tub is asked
  and \<^verbatim>\<open>_save_ref\<close> is the callback of its deferred.
\<close>

definition get_reference ::
  "world \<Rightarrow> connector \<Rightarrow> string \<Rightarrow> (error + ref) \<times> connector" where
  "get_reference w s furl_or_file =
     (let f = furl_or_file in
      case remote_refs s f of
        Some r \<Rightarrow> (Inr r, s)
      | None \<Rightarrow>
          (case tub_getReference w f of
             Inl e \<Rightarrow> (Inl e, log_event (GetReference f) s)
           | Inr r \<Rightarrow>
               (let (r', s') = save_ref (log_event (GetReference f) s) r f
                in (Inr r', s'))))"

subsection \<open>The retry loop\<close>

text \<open>
  Modelled from the spec: \<^verbatim>\<open>sleep_deferred\<close> is defined in
  \<^verbatim>\<open>IPython.kernel.twistedutil\<close>, another module. The caller is suspended for the
  delay, which the trace records; the world moves on to its next snapshot meanwhile.
\<close>

definition sleep_deferred :: "pyfloat \<Rightarrow> connector \<Rightarrow> connector" where
  "sleep_deferred delay s = (log_event (Sleep delay) s)\<lparr>now := Suc (now s)\<rparr>"

text \<open>
  The body of the \<^verbatim>\<open>try\<close> block of \<^verbatim>\<open>_try_to_connect\<close>:
  \<^verbatim>\<open>self.furl = find_furl(furl_or_file)\<close>,
  \<^verbatim>\<open>rr = yield self.get_reference(self.furl)\<close>,
  \<^verbatim>\<open>log.msg("Connected: %s" % furl_or_file)\<close>.
\<close>

definition connect_attempt ::
  "world \<Rightarrow> connector \<Rightarrow> string \<Rightarrow> (error + ref) \<times> connector" where
  "connect_attempt w s furl_or_file =
     (case fcutil_find_furl w furl_or_file of
        Inl e \<Rightarrow> (Inl e, log_event (FindFurl furl_or_file) s)
      | Inr f \<Rightarrow>
          (case get_reference w ((log_event (FindFurl furl_or_file) s)\<lparr>furl := Some f\<rparr>) f of
             (Inl e, s1) \<Rightarrow> (Inl e, s1)
           | (Inr rr, s1) \<Rightarrow> (Inr rr, log_event (Connected furl_or_file) s1)))"

text \<open>The message of the exception raised when \<^verbatim>\<open>attempt < max_tries\<close> fails.\<close>

definition max_tries_exceeded_message :: "int \<Rightarrow> string" where
  "max_tries_exceeded_message max_tries =
     ''Could not connect to controller, max_tries ('' @ repr_int max_tries @
     '') exceeded. This usually means that i) the controller was not started, '' @
     ''or ii) a firewall was blocking the client from connecting '' @
     ''to the controller.''"

text \<open>
  \<^verbatim>\<open>1.5*delay\<close>, for a delay that is a float (an int is converted to a float
  before it is multiplied).
\<close>

definition times_1_5 :: "pyfloat \<Rightarrow> pyfloat" where
  "times_1_5 delay = float_mul (Finite 3 (- 1)) delay"

text \<open>
  \<^verbatim>\<open>_try_to_connect\<close>. \<open>W\<close> gives the snapshot of the world at each moment. The bare
  \<^verbatim>\<open>except:\<close> catches every failure of the attempt; \<^verbatim>\<open>raise\<close> re-raises it.
\<close>

function try_to_connect ::
  "(nat \<Rightarrow> world) \<Rightarrow> connector \<Rightarrow> string \<Rightarrow> pyfloat \<Rightarrow> int \<Rightarrow> int \<Rightarrow>
   (error + ref) \<times> connector"
where
  "try_to_connect W s furl_or_file delay max_tries attempt =
     (if attempt < max_tries then
        (case connect_attempt (W (now s)) (log_event (Connecting attempt) s) furl_or_file of
           (Inr rr, s1) \<Rightarrow> (Inr rr, s1)
         | (Inl e, s1) \<Rightarrow>
             (if attempt = max_tries - 1 then (Inl e, s1)
              else try_to_connect W (sleep_deferred delay s1) furl_or_file
                     (times_1_5 delay) max_tries (attempt + 1)))
      else (Inl (ClientConnectorError (max_tries_exceeded_message max_tries)), s))"
  by pat_completeness auto
termination
  by (relation "measure (\<lambda>(W, s, f, d, m, a). nat (m - a))") auto

declare try_to_connect.simps [simp del]

text \<open>
  The spec's name for the failure of a retry loop that is entered with no attempt left:
  the \<^verbatim>\<open>ClientConnectorError\<close> of the \<^verbatim>\<open>else\<close> branch of \<^verbatim>\<open>_try_to_connect\<close>.
\<close>

definition RetryBudgetExhausted :: "int \<Rightarrow> error" where
  "RetryBudgetExhausted max_tries = ClientConnectorError (max_tries_exceeded_message max_tries)"

subsection \<open>Finding the FURL file\<close>

text \<open>
  A cluster directory object, as far as this module reads it.
\<close>

record cluster_dir_obj =
  location :: string
  security_dir :: string
  log_dir :: string

text \<open>
  The functions of \<^verbatim>\<open>fcutil\<close>, \<^verbatim>\<open>clusterdir\<close> and \<^verbatim>\<open>IPython.utils.path\<close>
  that \<^verbatim>\<open>_find_furl\<close> calls; \<^verbatim>\<open>validate_furl_or_file\<close> returns nothing or raises.
\<close>

record filesystem =
  is_valid_furl_or_file :: "string \<Rightarrow> bool"
  validate_furl_or_file :: "string \<Rightarrow> error + unit"
  find_cluster_dir :: "string \<Rightarrow> error + cluster_dir_obj"
  find_cluster_dir_by_profile :: "string \<Rightarrow> string \<Rightarrow> error + cluster_dir_obj"
  get_ipython_dir :: string

datatype fs_call =
    IsValidFurlOrFile string
  | FindClusterDir string
  | GetIPythonDir
  | FindClusterDirByProfile string string
  | ValidateFurlOrFile string

text \<open>\<^verbatim>\<open>os.path.join\<close> of two components (POSIX).\<close>

definition os_path_join :: "string \<Rightarrow> string \<Rightarrow> string" where
  "os_path_join a b =
     (if b \<noteq> [] \<and> hd b = CHR ''/'' then b
      else if a = [] \<or> last a = CHR ''/'' then a @ b
      else a @ ''/'' @ b)"

text \<open>
  The common end of the strategies "by \<^verbatim>\<open>cluster_dir\<close>" and "by profile": the FURL
  file is looked for in the security directory of the cluster directory that was found
  (\<open>found\<close> is the outcome of that search), and validated. \<open>calls\<close> are the external
  calls made so far.
\<close>

definition furl_file_in ::
  "filesystem \<Rightarrow> error + cluster_dir_obj \<Rightarrow> string \<Rightarrow> fs_call list \<Rightarrow>
   (error + string) \<times> fs_call list" where
  "furl_file_in E found furl_file_name calls =
     (case found of
        Inl e \<Rightarrow> (Inl e, calls)
      | Inr cluster_dir_obj \<Rightarrow>
          (let sdir = security_dir cluster_dir_obj;
               furl_file = os_path_join sdir furl_file_name
           in case validate_furl_or_file E furl_file of
                Inl e \<Rightarrow> (Inl e, calls @ [ValidateFurlOrFile furl_file])
              | Inr _ \<Rightarrow> (Inr furl_file, calls @ [ValidateFurlOrFile furl_file])))"

text \<open>
  \<^verbatim>\<open>_find_furl\<close> from the test of \<^verbatim>\<open>furl_file_name\<close> on, that is, once
  \<^verbatim>\<open>furl_or_file\<close> has not given a result.
\<close>

definition find_furl_by_name ::
  "filesystem \<Rightarrow> string option \<Rightarrow> string option \<Rightarrow> string option \<Rightarrow> string option \<Rightarrow>
   fs_call list \<Rightarrow> (error + string) \<times> fs_call list" where
  "find_furl_by_name E profile cluster_dir furl_file_name ipython_dir calls =
     (case furl_file_name of
        None \<Rightarrow>
          (Inl (FURLError ''A furl_file_name must be provided if furl_or_file is not''), calls)
      | Some name \<Rightarrow>
          (case cluster_dir of
             Some cd \<Rightarrow>
               furl_file_in E (find_cluster_dir E cd) name (calls @ [FindClusterDir cd])
           | None \<Rightarrow>
               (let (idir, calls1) =
                      (case ipython_dir of
                         None \<Rightarrow> (get_ipython_dir E, calls @ [GetIPythonDir])
                       | Some d \<Rightarrow> (d, calls))
                in case profile of
                     Some p \<Rightarrow>
                       furl_file_in E (find_cluster_dir_by_profile E idir p) name
                         (calls1 @ [FindClusterDirByProfile idir p])
                   | None \<Rightarrow> (Inl (FURLError ''Could not find a valid FURL file.''), calls1))))"

text \<open>
  \<^verbatim>\<open>AsyncClientConnector._find_furl\<close>. An argument that is \<^verbatim>\<open>None\<close> is \<open>None\<close>.
  The result comes with the external calls that were made, in order.
\<close>

definition AsyncClientConnector_find_furl ::
  "filesystem \<Rightarrow> string option \<Rightarrow> string option \<Rightarrow> string option \<Rightarrow> string option \<Rightarrow>
   string option \<Rightarrow> (error + string) \<times> fs_call list" where
  "AsyncClientConnector_find_furl E profile cluster_dir furl_or_file furl_file_name ipython_dir =
     (case furl_or_file of
        Some f \<Rightarrow>
          (if is_valid_furl_or_file E f then (Inr f, [IsValidFurlOrFile f])
           else find_furl_by_name E profile cluster_dir furl_file_name ipython_dir
                  [IsValidFurlOrFile f])
      | None \<Rightarrow> find_furl_by_name E profile cluster_dir furl_file_name ipython_dir [])"

text \<open>
  Modelled from the spec: \<^verbatim>\<open>find_furl\<close>, which \<^verbatim>\<open>_try_to_connect\<close> calls on
  every attempt, is defined in \<^verbatim>\<open>IPython.kernel.fcutil\<close>, another module.
  By the spec a descriptor is either given inline or loaded from a file, and a
  descriptor file holds nothing (not yet ready) or one capability address; the bytes are
  read again on each attempt. \<open>is_valid_furl\<close> is the syntactic check of a FURL, and
  \<open>files\<close> the contents of the files that exist.
\<close>

definition find_furl ::
  "(string \<Rightarrow> bool) \<Rightarrow> (string \<rightharpoonup> string) \<Rightarrow> string \<Rightarrow> error + string" where
  "find_furl is_valid_furl files furl_or_file =
     (if is_valid_furl furl_or_file then Inr furl_or_file
      else case files furl_or_file of
             None \<Rightarrow> Inl (FURLError furl_or_file)
           | Some content \<Rightarrow>
               if content \<noteq> [] \<and> is_valid_furl content then Inr content
               else Inl (FURLError furl_or_file))"

subsection \<open>The client adapter and \<^verbatim>\<open>get_client\<close>\<close>

text \<open>
  Modelled from the spec: \<^verbatim>\<open>import_item\<close> is defined in
  \<^verbatim>\<open>IPython.utils.importstring\<close>, another module. By the spec the name is resolved to a concrete type of
  the local process, and the resolution fails with \<open>AdapterResolutionError\<close> if the name
  cannot be resolved.
\<close>

definition import_item :: "world \<Rightarrow> string \<Rightarrow> error + client_interface" where
  "import_item w name =
     (case importable w name of
        None \<Rightarrow> Inl (AdapterResolutionError name)
      | Some client_interface \<Rightarrow> Inr client_interface)"

text \<open>
  The inner function \<^verbatim>\<open>adapt\<close>: \<^verbatim>\<open>client = client_interface(rr)\<close>,
  \<^verbatim>\<open>client.tub = self.tub\<close>.
\<close>

definition adapt :: "connector \<Rightarrow> ref \<Rightarrow> client_interface \<Rightarrow> error + client" where
  "adapt s rr client_interface =
     (case client_interface rr of
        Inl e \<Rightarrow> Inl e
      | Inr client \<Rightarrow> Inr (client\<lparr>client_tub := Some (tub s)\<rparr>))"

text \<open>
  The inner function \<^verbatim>\<open>_wrap_remote_reference\<close>: the remote call, then
  \<^verbatim>\<open>import_item\<close> and \<^verbatim>\<open>adapt\<close> as the callbacks of its deferred.
\<close>

definition wrap_remote_reference ::
  "world \<Rightarrow> connector \<Rightarrow> ref \<Rightarrow> (error + client) \<times> connector" where
  "wrap_remote_reference w s rr =
     (let s1 = log_event (CallRemote rr ''get_client_name'') s
      in case callRemote w rr ''get_client_name'' of
           Inl e \<Rightarrow> (Inl e, s1)
         | Inr name \<Rightarrow>
             (let s2 = log_event (ImportItem name) s1
              in case import_item w name of
                   Inl e \<Rightarrow> (Inl e, s2)
                 | Inr client_interface \<Rightarrow> (adapt s2 rr client_interface, s2)))"

definition handle_error_message :: "string \<Rightarrow> string" where
  "handle_error_message furl_file =
     ''Could not connect to the controller '' @
     ''using the FURL file. This usually means that i) the controller '' @
     ''was not started or ii) a firewall was blocking the client from '' @
     ''connecting to the controller: '' @ furl_file"

text \<open>\<^verbatim>\<open>_handle_error\<close>: the errback; the failure \<open>f\<close> it receives is not used.\<close>

definition handle_error :: "error \<Rightarrow> string \<Rightarrow> error + client" where
  "handle_error f furl_file = Inl (ClientConnectorError (handle_error_message furl_file))"

text \<open>
  \<^verbatim>\<open>AsyncClientConnector.get_client\<close>. A \<^verbatim>\<open>FURLError\<close> of \<^verbatim>\<open>_find_furl\<close>
  becomes a failed deferred, any other exception of it is raised: both are \<open>Inl\<close>. The
  callback \<^verbatim>\<open>_wrap_remote_reference\<close> and then the errback \<^verbatim>\<open>_handle_error\<close> are
  added to the deferred of \<^verbatim>\<open>_try_to_connect\<close>, so the errback sees a failure of
  either.
\<close>

definition get_client ::
  "filesystem \<Rightarrow> (nat \<Rightarrow> world) \<Rightarrow> connector \<Rightarrow> string option \<Rightarrow> string option \<Rightarrow>
   string option \<Rightarrow> string option \<Rightarrow> string option \<Rightarrow> pyfloat \<Rightarrow> int \<Rightarrow>
   (error + client) \<times> connector" where
  "get_client E W s profile cluster_dir furl_or_file furl_file_name ipython_dir delay max_tries =
     (case fst (AsyncClientConnector_find_furl E profile cluster_dir furl_or_file
                  furl_file_name ipython_dir) of
        Inl e \<Rightarrow> (Inl e, s)
      | Inr furl_file \<Rightarrow>
          (case try_to_connect W s furl_file delay max_tries 0 of
             (Inl f, s1) \<Rightarrow> (handle_error f furl_file, s1)
           | (Inr rr, s1) \<Rightarrow>
               (case wrap_remote_reference (W (now s1)) s1 rr of
                  (Inl f, s2) \<Rightarrow> (handle_error f furl_file, s2)
                | (Inr client, s2) \<Rightarrow> (Inr client, s2))))"

subsection \<open>The blocking connector\<close>

text \<open>
  Python values, as far as the arguments of \<^verbatim>\<open>get_client\<close> need them.
\<close>

datatype pyval = PyNone | PyStr string | PyInt int | PyFloat pyfloat

text \<open>
  A call with positional arguments only: the arguments are bound to the parameters in
  the order of the \<^verbatim>\<open>def\<close>, a parameter that is left over takes its default value,
  and an argument that is left over is a \<^verbatim>\<open>TypeError\<close>. The signature is the list
  of the parameters (after \<^verbatim>\<open>self\<close>) with their defaults.
\<close>

fun bind_positional ::
  "(string \<times> pyval) list \<Rightarrow> pyval list \<Rightarrow> error + (string \<times> pyval) list" where
  "bind_positional [] [] = Inr []"
| "bind_positional [] (a # as) = Inl (TypeError ''too many arguments'')"
| "bind_positional ((p, d) # ps) [] =
     (case bind_positional ps [] of Inl e \<Rightarrow> Inl e | Inr bs \<Rightarrow> Inr ((p, d) # bs))"
| "bind_positional ((p, d) # ps) (a # as) =
     (case bind_positional ps as of Inl e \<Rightarrow> Inl e | Inr bs \<Rightarrow> Inr ((p, a) # bs))"

text \<open>
  The signature of \<^verbatim>\<open>AsyncClientConnector.get_client\<close>:
  \<^verbatim>\<open>profile='default', cluster_dir=None, furl_or_file=None, furl_file_name=None,
  ipython_dir=None, delay=DELAY, max_tries=MAX_TRIES\<close>.
\<close>

definition AsyncClientConnector_get_client_signature :: "(string \<times> pyval) list" where
  "AsyncClientConnector_get_client_signature =
     [(''profile'', PyStr ''default''), (''cluster_dir'', PyNone), (''furl_or_file'', PyNone),
      (''furl_file_name'', PyNone), (''ipython_dir'', PyNone), (''delay'', PyFloat DELAY),
      (''max_tries'', PyInt MAX_TRIES)]"

text \<open>
  \<^verbatim>\<open>ClientConnector.get_client\<close> up to the call of the asynchronous method:
  \<^verbatim>\<open>blockingCallFromThread(self.async_cc.get_client, profile, cluster_dir,
  furl_or_file, ipython_dir, delay, max_tries)\<close>. The result is the binding of the
  parameters with which the body of \<^verbatim>\<open>AsyncClientConnector.get_client\<close> runs.
\<close>

definition ClientConnector_get_client ::
  "pyval \<Rightarrow> pyval \<Rightarrow> pyval \<Rightarrow> pyval \<Rightarrow> pyval \<Rightarrow> pyval \<Rightarrow> error + (string \<times> pyval) list" where
  "ClientConnector_get_client profile cluster_dir furl_or_file ipython_dir delay max_tries =
     bind_positional AsyncClientConnector_get_client_signature
       [profile, cluster_dir, furl_or_file, ipython_dir, delay, max_tries]"

text \<open>
  The binding in which each argument of the blocking method reaches the parameter of
  the same name, and \<^verbatim>\<open>furl_file_name\<close>, which the blocking method does not have,
  keeps its default.
\<close>

definition aligned_binding ::
  "pyval \<Rightarrow> pyval \<Rightarrow> pyval \<Rightarrow> pyval \<Rightarrow> pyval \<Rightarrow> pyval \<Rightarrow> (string \<times> pyval) list" where
  "aligned_binding profile cluster_dir furl_or_file ipython_dir delay max_tries =
     [(''profile'', profile), (''cluster_dir'', cluster_dir), (''furl_or_file'', furl_or_file),
      (''furl_file_name'', PyNone), (''ipython_dir'', ipython_dir), (''delay'', delay),
      (''max_tries'', max_tries)]"

subsection \<open>The cluster\<close>

text \<open>
  What a call of a method that returns a deferred does: it raises an exception, or it
  returns a deferred, which in the end succeeds or fails.
\<close>

datatype 'a call = Raises error | Returns "error + 'a"

text \<open>
  The launcher object that \<^verbatim>\<open>start\<close> creates and configures, and what the methods
  of \<^verbatim>\<open>IPClusterLauncher\<close>, \<^verbatim>\<open>os.getcwd\<close> and \<^verbatim>\<open>gatherBoth\<close>
  (\<^verbatim>\<open>IPython.kernel.twistedutil\<close>) do, all defined in other modules.
  \<^verbatim>\<open>gatherBoth\<close> is given the outcomes of the deferreds and gives the outcome of the
  deferred it returns.
\<close>

record launcher =
  work_dir :: string
  ipcluster_n :: int
  ipcluster_subcommand :: string

record launcher_env =
  getcwd :: string
  launcher_start :: "launcher \<Rightarrow> unit call"
  launcher_observe_stop :: "launcher \<Rightarrow> unit call"
  launcher_stop :: "launcher \<Rightarrow> unit call"
  gatherBoth :: "(error + unit) list \<Rightarrow> error + (error + unit) list"

text \<open>
  The attributes of \<^verbatim>\<open>AsyncCluster\<close> that \<^verbatim>\<open>start\<close> and \<^verbatim>\<open>stop\<close> use.
  \<^verbatim>\<open>state\<close> is a string in the source: \<^verbatim>\<open>'before'\<close>, \<^verbatim>\<open>'running'\<close> or
  \<^verbatim>\<open>'after'\<close>.
\<close>

record cluster =
  state :: string
  launcher :: "launcher option"
  auto_stop :: bool

text \<open>The attributes that \<^verbatim>\<open>AsyncCluster.__init__\<close> sets.\<close>

definition init_cluster :: "bool \<Rightarrow> cluster" where
  "init_cluster a = \<lparr>state = ''before'', launcher = None, auto_stop = a\<rparr>"

definition handle_start :: "cluster \<Rightarrow> unit \<Rightarrow> cluster" where
  "handle_start c r = c\<lparr>state := ''running''\<rparr>"

definition handle_stop :: "cluster \<Rightarrow> unit \<Rightarrow> cluster" where
  "handle_stop c r = c\<lparr>state := ''after''\<rparr>"

text \<open>
  \<^verbatim>\<open>AsyncCluster.start\<close>. \<^verbatim>\<open>make_deferred\<close> turns an exception that the method
  raises into a failed deferred. \<^verbatim>\<open>_handle_start\<close> is the callback of the launcher's
  deferred: it runs only if the launcher reports that it has started.
\<close>

definition start :: "launcher_env \<Rightarrow> cluster \<Rightarrow> int \<Rightarrow> (error + unit) \<times> cluster" where
  "start L c n =
     (if \<not> state c = ''running'' then
        (let l = \<lparr>work_dir = getcwd L, ipcluster_n = n, ipcluster_subcommand = ''start''\<rparr>;
             c1 = c\<lparr>launcher := Some l\<rparr>
         in case launcher_start L l of
              Raises e \<Rightarrow> (Inl e, c1)
            | Returns (Inl e) \<Rightarrow> (Inl e, c1)
            | Returns (Inr r) \<Rightarrow> (Inr (), handle_start c1 r))
      else (Inl (ClusterStateError ''Cluster is already running''), c))"

text \<open>
  \<^verbatim>\<open>AsyncCluster.stop\<close>. If \<^verbatim>\<open>observe_stop()\<close> or \<^verbatim>\<open>stop()\<close> of the launcher
  raises, the method ends there and its deferred fails with that exception. Otherwise
  \<^verbatim>\<open>_handle_stop\<close> is the callback of the deferred of \<^verbatim>\<open>observe_stop\<close>, so it runs
  only if that deferred succeeds, and the result of the method is what \<^verbatim>\<open>gatherBoth\<close>
  makes of the two deferreds.
\<close>

definition stop ::
  "launcher_env \<Rightarrow> cluster \<Rightarrow> (error + (error + unit) list) \<times> cluster" where
  "stop L c =
     (if state c = ''running'' then
        (case launcher c of
           None \<Rightarrow> (Inl (AttributeError ''observe_stop''), c)
         | Some l \<Rightarrow>
             (case launcher_observe_stop L l of
                Raises e \<Rightarrow> (Inl e, c)
              | Returns observed \<Rightarrow>
                  (let (d1, c1) =
                         (case observed of
                            Inl e \<Rightarrow> (Inl e, c)
                          | Inr r \<Rightarrow> (Inr (), handle_stop c r))
                   in case launcher_stop L l of
                        Raises e \<Rightarrow> (Inl e, c1)
                      | Returns d2 \<Rightarrow> (gatherBoth L [d1, d2], c1))))
      else (Inl (ClusterStateError ''Cluster not running''), c))"

subsection \<open>Several uses of the cache\<close>

text \<open>
  A sequence of calls of \<^verbatim>\<open>get_reference\<close>, each in the world of its moment and
  each resolved before the next.
\<close>

fun get_references :: "connector \<Rightarrow> (world \<times> string) list \<Rightarrow> connector" where
  "get_references s [] = s"
| "get_references s ((w, f) # calls) = get_references (snd (get_reference w s f)) calls"

subsection \<open>Reading the trace\<close>

text \<open>
  The events that time the retry loop: the start of an attempt and a suspension. The
  number of attempts made is the number of attempts started.
\<close>

fun is_timing :: "event \<Rightarrow> bool" where
  "is_timing (Connecting a) = True"
| "is_timing (Sleep d) = True"
| "is_timing _ = False"

fun is_Connecting :: "event \<Rightarrow> bool" where
  "is_Connecting (Connecting a) = True"
| "is_Connecting _ = False"

fun is_FindFurl :: "event \<Rightarrow> bool" where
  "is_FindFurl (FindFurl f) = True"
| "is_FindFurl _ = False"

fun is_GetReference :: "event \<Rightarrow> bool" where
  "is_GetReference (GetReference f) = True"
| "is_GetReference _ = False"

definition attempts_made :: "event list \<Rightarrow> nat" where
  "attempts_made evs = length (filter is_Connecting evs)"

text \<open>What a run has appended to the trace.\<close>

definition new_events :: "connector \<Rightarrow> connector \<Rightarrow> event list" where
  "new_events s s' = drop (length (events s)) (events s')"

text \<open>
  The timing of \<open>n\<close> attempts that start at attempt index \<open>a\<close> with delay \<open>d\<close>: each
  attempt but the last is followed by a suspension, the \<open>k\<close>-th of them for \<open>d\<close>
  multiplied \<open>k\<close> times by 1.5, each product a float.
\<close>

definition backoff_schedule :: "pyfloat \<Rightarrow> int \<Rightarrow> nat \<Rightarrow> event list" where
  "backoff_schedule d a n =
     concat (map (\<lambda>k. [Connecting (a + int k), Sleep ((times_1_5 ^^ k) d)]) [0..<n - 1]) @
     [Connecting (a + int n - 1)]"

text \<open>A world in which no FURL is found and nothing can be reached.\<close>

definition never_world :: world where
  "never_world =
     \<lparr>fcutil_find_furl = (\<lambda>f. Inl (FURLError f)),
      tub_getReference = (\<lambda>f. Inl (OtherError f)),
      callRemote = (\<lambda>r n. Inl (OtherError n)),
      importable = Map.empty\<rparr>"

fun is_CallRemote :: "event \<Rightarrow> bool" where
  "is_CallRemote (CallRemote r n) = True"
| "is_CallRemote _ = False"

text \<open>
  A world in which every FURL is found as it is given and reached as the reference
  number 7, whose remote side names the class \<^verbatim>\<open>mod.Client\<close>, a class that can be
  imported.
\<close>

definition plain_client :: client_interface where
  "plain_client rr = Inr \<lparr>client_class = ''mod.Client'', remote_reference = rr, client_tub = None\<rparr>"

definition reachable_world :: world where
  "reachable_world =
     \<lparr>fcutil_find_furl = Inr,
      tub_getReference = (\<lambda>f. Inr 7),
      callRemote = (\<lambda>r n. Inr ''mod.Client''),
      importable = [''mod.Client'' \<mapsto> plain_client]\<rparr>"

text \<open>A world that does not change.\<close>

definition always :: "world \<Rightarrow> nat \<Rightarrow> world" where
  "always w t = w"

fun is_read :: "event \<Rightarrow> bool" where
  "is_read (Connecting a) = True"
| "is_read (FindFurl f) = True"
| "is_read _ = False"

subsection \<open>Environments for the examples\<close>

text \<open>
  A file system in which no FURL or FURL file is valid as given, every cluster directory
  is found and every FURL file in it validates; and the same with every FURL or FURL file
  valid as given.
\<close>

definition rejecting_filesystem :: filesystem where
  "rejecting_filesystem =
     \<lparr>is_valid_furl_or_file = (\<lambda>f. False),
      validate_furl_or_file = (\<lambda>f. Inr ()),
      find_cluster_dir =
        (\<lambda>d. Inr \<lparr>location = d, security_dir = d @ ''/security'', log_dir = d @ ''/log''\<rparr>),
      find_cluster_dir_by_profile =
        (\<lambda>i p. Inr \<lparr>location = i, security_dir = i @ ''/security'', log_dir = i @ ''/log''\<rparr>),
      get_ipython_dir = ''/home/u/.ipython''\<rparr>"

definition accepting_filesystem :: filesystem where
  "accepting_filesystem = rejecting_filesystem\<lparr>is_valid_furl_or_file := (\<lambda>f. True)\<rparr>"

text \<open>
  A launcher whose commands all succeed, and one whose stop is never observed: the
  deferred of \<^verbatim>\<open>observe_stop\<close> fails. In both, \<^verbatim>\<open>gatherBoth\<close> succeeds with the
  outcomes of the deferreds it is given (failures are consumed).
\<close>

definition working_launcher :: launcher_env where
  "working_launcher =
     \<lparr>getcwd = ''/tmp'',
      launcher_start = (\<lambda>l. Returns (Inr ())),
      launcher_observe_stop = (\<lambda>l. Returns (Inr ())),
      launcher_stop = (\<lambda>l. Returns (Inr ())),
      gatherBoth = Inr\<rparr>"

definition unobserved_launcher :: launcher_env where
  "unobserved_launcher =
     working_launcher\<lparr>launcher_observe_stop := (\<lambda>l. Returns (Inl (OtherError ''lost'')))\<rparr>"

text \<open>
  A world whose FURL file \<^verbatim>\<open>a.furl\<close> is empty at first and holds a FURL after the
  first suspension.
\<close>

definition is_furl :: "string \<Rightarrow> bool" where
  "is_furl f = (take 5 f = ''pb://'')"

definition flushing_world :: "nat \<Rightarrow> world" where
  "flushing_world t =
     reachable_world
       \<lparr>fcutil_find_furl :=
          find_furl is_furl [''a.furl'' \<mapsto> (if t = 0 then [] else ''pb://x@h:1/y'')]\<rparr>"

section \<open>Properties\<close>

subsection \<open>Traces of the retry loop\<close>

lemma backoff_schedule_Suc:
  "1 \<le> n \<Longrightarrow> backoff_schedule d a (Suc n) =
     Connecting a # Sleep d # backoff_schedule (times_1_5 d) (a + 1) n"
proof -
  assume n: "1 \<le> n"
  then have "[0..<Suc n - 1] = 0 # map Suc [0..<n - 1]"
    by (simp add: upt_conv_Cons map_Suc_upt)
  then show ?thesis
    using n by (simp add: backoff_schedule_def comp_def funpow_swap1 algebra_simps)
qed

lemma get_reference_events:
  "get_reference w s f = (r, s1) \<Longrightarrow>
   now s1 = now s \<and> (\<exists>evs. events s1 = events s @ evs \<and> filter is_timing evs = [])"
  by (auto simp: get_reference_def save_ref_def log_event_def Let_def
           split: option.splits sum.splits)

lemma connect_attempt_events:
  "connect_attempt w s f = (r, s1) \<Longrightarrow>
   now s1 = now s \<and> (\<exists>evs. events s1 = events s @ evs \<and> filter is_timing evs = [])"
  by (auto simp: connect_attempt_def log_event_def Let_def
           split: option.splits sum.splits prod.splits dest!: get_reference_events)

lemma try_to_connect_step:
  "attempt < max_tries \<Longrightarrow>
   connect_attempt (W (now s)) (log_event (Connecting attempt) s) f = (r1, s1) \<Longrightarrow>
   try_to_connect W s f d max_tries attempt =
     (case r1 of
        Inr rr \<Rightarrow> (Inr rr, s1)
      | Inl e \<Rightarrow>
          if attempt = max_tries - 1 then (Inl e, s1)
          else try_to_connect W (sleep_deferred d s1) f (times_1_5 d) max_tries (attempt + 1))"
  by (simp add: try_to_connect.simps [of W s f d max_tries attempt])

lemma try_to_connect_timing:
  "attempt < max_tries \<Longrightarrow> try_to_connect W s f d max_tries attempt = (r, s') \<Longrightarrow>
   \<exists>n evs. 1 \<le> n \<and> attempt + int n \<le> max_tries \<and> events s' = events s @ evs \<and>
      filter is_timing evs = backoff_schedule d attempt n"
proof (induction W s f d max_tries attempt arbitrary: r s' rule: try_to_connect.induct)
  case (1 W s f d m a)
  obtain r1 s1 where ca: "connect_attempt (W (now s)) (log_event (Connecting a) s) f = (r1, s1)"
    by (cases "connect_attempt (W (now s)) (log_event (Connecting a) s) f")
  note step = try_to_connect_step [where W = W and s = s and d = d, OF 1(2) ca]
  from connect_attempt_events [OF ca] obtain evs1 where
    ev1: "events s1 = events s @ Connecting a # evs1" "filter is_timing evs1 = []"
    by (auto simp: log_event_def)
  show ?case
  proof (cases "(\<exists>rr. r1 = Inr rr) \<or> a = m - 1")
    case True
    then have "s' = s1" using 1(3) step by (auto split: sum.splits)
    then show ?thesis using ev1 1(2)
      by (intro exI [of _ 1] exI [of _ "Connecting a # evs1"]) (simp add: backoff_schedule_def)
  next
    case False
    then obtain e where r1: "r1 = Inl e" and na: "a \<noteq> m - 1" by (cases r1) auto
    have rec: "try_to_connect W (sleep_deferred d s1) f (times_1_5 d) m (a + 1) = (r, s')"
      using 1(3) step r1 na by simp
    have lt: "a + 1 < m" using 1(2) na by simp
    from "1.IH" [OF 1(2) ca [symmetric] r1 na lt rec]
    obtain n evs where n: "1 \<le> n" "a + 1 + int n \<le> m"
      "events s' = events (sleep_deferred d s1) @ evs"
      "filter is_timing evs = backoff_schedule (times_1_5 d) (a + 1) n"
      by auto
    show ?thesis
      using n ev1 backoff_schedule_Suc [OF n(1), of d a]
      by (intro exI [of _ "Suc n"] exI [of _ "Connecting a # evs1 @ Sleep d # evs"])
         (simp add: sleep_deferred_def log_event_def)
  qed
qed

lemma is_Connecting_timing: "(is_timing x \<and> is_Connecting x) = is_Connecting x"
  by (cases x) auto

lemma attempts_made_timing: "attempts_made (filter is_timing evs) = attempts_made evs"
  by (simp add: attempts_made_def is_Connecting_timing)

lemma attempts_made_pairs:
  "length (filter is_Connecting (concat (map (\<lambda>k. [Connecting (g k), Sleep (h k)]) xs))) =
   length xs"
  by (induction xs) auto

lemma attempts_made_backoff: "1 \<le> n \<Longrightarrow> attempts_made (backoff_schedule d a n) = n"
  by (simp add: attempts_made_def backoff_schedule_def attempts_made_pairs)

lemma try_to_connect_last_failure:
  "attempt < max_tries \<Longrightarrow> try_to_connect W s f d max_tries attempt = (Inl e, s') \<Longrightarrow>
   \<exists>s0. now s0 = now s + nat (max_tries - 1 - attempt) \<and>
        connect_attempt (W (now s0)) (log_event (Connecting (max_tries - 1)) s0) f = (Inl e, s')"
proof (induction W s f d max_tries attempt rule: try_to_connect.induct)
  case (1 W s f d m a)
  obtain r1 s1 where ca: "connect_attempt (W (now s)) (log_event (Connecting a) s) f = (r1, s1)"
    by (cases "connect_attempt (W (now s)) (log_event (Connecting a) s) f")
  note step = try_to_connect_step [where W = W and s = s and d = d, OF 1(2) ca]
  have now1: "now s1 = now s"
    using connect_attempt_events [OF ca] by (simp add: log_event_def)
  show ?case
  proof (cases "a = m - 1")
    case True
    then have "r1 = Inl e \<and> s1 = s'" using 1(3) step by (auto split: sum.splits)
    then show ?thesis using ca True by (intro exI [of _ s]) simp
  next
    case False
    then obtain e1 where r1: "r1 = Inl e1" using 1(3) step by (cases r1) auto
    have rec: "try_to_connect W (sleep_deferred d s1) f (times_1_5 d) m (a + 1) = (Inl e, s')"
      using 1(3) step r1 False by simp
    have lt: "a + 1 < m" using 1(2) False by simp
    from "1.IH" [OF 1(2) ca [symmetric] r1 False lt rec]
    obtain s0 where "now s0 = now (sleep_deferred d s1) + nat (m - 1 - (a + 1))"
      "connect_attempt (W (now s0)) (log_event (Connecting (m - 1)) s0) f = (Inl e, s')"
      by auto
    then show ?thesis using now1 lt
      by (intro exI [of _ s0]) (simp add: sleep_deferred_def log_event_def nat_diff_distrib)
  qed
qed

subsection \<open>Exponential backoff\<close>

lemma times_1_5_DELAY: "times_1_5 DELAY = Finite 5404319552844596 (- 54)"
proof -
  have "bit_length 10808639105689191 = 54"
    by (simp add: bit_length.simps)
  then show ?thesis
    by (simp add: times_1_5_def DELAY_def round_double_def round_half_even_def Let_def)
qed

lemma never_run:
  "try_to_connect (always never_world) (init_connector (Tub 0)) ''a.furl'' DELAY 3 0 =
   (Inl (FURLError ''a.furl''),
    \<lparr>remote_refs = Map.empty, tub = Tub 0, furl = None, now = 2,
     events = [Connecting 0, FindFurl ''a.furl'', Sleep DELAY, Connecting 1,
               FindFurl ''a.furl'', Sleep (Finite 5404319552844596 (- 54)), Connecting 2,
               FindFurl ''a.furl'']\<rparr>)"
  by (simp add: try_to_connect.simps connect_attempt_def never_world_def log_event_def
        init_connector_def sleep_deferred_def always_def times_1_5_DELAY)

lemma events_init_connector: "events (init_connector t) = []"
  by (simp add: init_connector_def)

text \<open>
  C1, as it is stated, fails. The initial delay is the default, \<^verbatim>\<open>0.2\<close> (the double
  nearest to \<open>2 / 10\<close>), \<^verbatim>\<open>max_tries\<close> is 3 and no attempt succeeds. The loop waits
  \<^verbatim>\<open>0.2\<close> after attempt 0 and \<^verbatim>\<open>1.5*0.2\<close> after attempt 1; this product is the
  double \<open>5404319552844596 / 2 ^ 54\<close> (\<^verbatim>\<open>0.30000000000000004\<close>), which is not
  \<open>d0 * 1.5 ^ 1\<close>.
\<close>

theorem try_to_connect_waits_rounded:
  "float_positive DELAY \<and> (1::int) \<le> 3 \<and>
   DELAY = Finite 3602879701896397 (- 54) \<and>
   \<bar>float_rat 3602879701896397 (- 54) - 2 / 10\<bar> \<le> 1 / 2 ^ 56 \<and>
   filter is_timing
     (new_events (init_connector (Tub 0))
        (snd (try_to_connect (always never_world) (init_connector (Tub 0)) ''a.furl''
                DELAY 3 0))) =
     [Connecting 0, Sleep (Finite 3602879701896397 (- 54)), Connecting 1,
      Sleep (Finite 5404319552844596 (- 54)), Connecting 2] \<and>
   float_rat 5404319552844596 (- 54) \<noteq> float_rat 3602879701896397 (- 54) * (3 / 2) ^ 1"
  by (simp add: never_run new_events_def events_init_connector)
     (simp add: DELAY_def float_rat_def)

text \<open>
  C1, amended. For every initial delay \<open>d0 > 0\<close> and every \<open>max_tries \<ge> 1\<close>, a run
  of \<^verbatim>\<open>_try_to_connect\<close> from attempt index 0 makes \<open>n\<close> attempts with
  \<open>1 \<le> n \<le> max_tries\<close>, and its attempts and suspensions happen in this order:
  attempt 0, a wait of \<open>d0\<close>, attempt 1, a wait of \<^verbatim>\<open>1.5*d0\<close>, and so on: the wait
  after the failed attempt \<open>k\<close> and before attempt \<open>k + 1\<close> is \<open>d0\<close> multiplied
  \<open>k\<close> times by 1.5 in float arithmetic, each wait being 1.5 times the one before it,
  rounded to the nearest double (\<^verbatim>\<open>delay[i] = 1.5*delay[i-1]\<close>). No wait follows
  the last attempt. This holds for every world and every starting state of the
  connector.
\<close>

theorem try_to_connect_backoff:
  assumes "float_positive d0" and "1 \<le> max_tries"
  shows "let tr = new_events s (snd (try_to_connect W s f d0 max_tries 0));
             n = attempts_made tr
         in 1 \<le> n \<and> int n \<le> max_tries \<and>
            filter is_timing tr =
              concat (map (\<lambda>k. [Connecting (int k), Sleep ((times_1_5 ^^ k) d0)])
                        [0..<n - 1]) @
              [Connecting (int n - 1)]"
proof -
  obtain r s' where run: "try_to_connect W s f d0 max_tries 0 = (r, s')"
    by (cases "try_to_connect W s f d0 max_tries 0")
  from assms(2) have "0 < max_tries" by simp
  from try_to_connect_timing [OF this run]
  obtain n evs where n: "1 \<le> n" "int n \<le> max_tries" "events s' = events s @ evs"
    "filter is_timing evs = backoff_schedule d0 0 n"
    by auto
  have tr: "new_events s s' = evs" using n(3) by (simp add: new_events_def)
  have "attempts_made evs = n"
    using attempts_made_timing [of evs] n(4) attempts_made_backoff [OF n(1), of d0 0] by simp
  then show ?thesis
    using n run tr by (simp add: backoff_schedule_def)
qed

theorem try_to_connect_backoff_witness:
  "float_positive DELAY \<and> (1::int) \<le> 3 \<and>
   (let tr = new_events (init_connector (Tub 0))
               (snd (try_to_connect (always never_world) (init_connector (Tub 0))
                       ''a.furl'' DELAY 3 0));
        n = attempts_made tr
    in n = 3 \<and> filter is_timing tr =
         [Connecting 0, Sleep DELAY, Connecting 1, Sleep (times_1_5 DELAY), Connecting 2])"
  using try_to_connect_backoff [of DELAY 3 "init_connector (Tub 0)" "always never_world"
          "''a.furl''"]
  by (simp add: never_run new_events_def attempts_made_def events_init_connector
        times_1_5_DELAY)
     (simp add: DELAY_def)

subsection \<open>The retry loop with no attempt left\<close>

text \<open>
  C4. When \<^verbatim>\<open>_try_to_connect\<close> is entered at attempt index 0 with
  \<open>max_tries \<le> 0\<close>, the attempt index has reached \<open>max_tries\<close> before any attempt is
  made: the call fails with \<open>RetryBudgetExhausted\<close>, and the connector is unchanged (no
  external call is made).
\<close>

theorem try_to_connect_no_budget:
  "max_tries \<le> 0 \<Longrightarrow>
   try_to_connect W s furl_or_file delay max_tries 0 = (Inl (RetryBudgetExhausted max_tries), s)"
  by (simp add: try_to_connect.simps RetryBudgetExhausted_def)

theorem try_to_connect_no_budget_witness:
  "(0::int) \<le> 0 \<and>
   try_to_connect (always reachable_world) (init_connector (Tub 0)) ''pb://x@h:1/y'' DELAY 0 0
   = (Inl (ClientConnectorError
       (''Could not connect to controller, max_tries (0) exceeded. This usually means that '' @
        ''i) the controller was not started, or ii) a firewall was blocking the client from '' @
        ''connecting to the controller.'')), init_connector (Tub 0))"
  using try_to_connect_no_budget [of 0 "always reachable_world" "init_connector (Tub 0)"
          "''pb://x@h:1/y''" DELAY]
  by (simp add: RetryBudgetExhausted_def max_tries_exceeded_message_def repr_int_def repr_nat.simps)


subsection \<open>The failure of the last attempt\<close>

text \<open>
  C5. A failure of the last allowed attempt (attempt index \<open>max_tries - 1\<close>) is what
  \<^verbatim>\<open>_try_to_connect\<close> fails with: the exception \<open>e\<close> of that attempt, not wrapped in
  anything, and the state in which that attempt left the connector. Hence, for a run from
  attempt index 0 with \<open>max_tries \<ge> 1\<close>, whenever the run fails, its failure is the one
  that the attempt with index \<open>max_tries - 1\<close> raised, made after \<open>max_tries - 1\<close>
  suspensions; this is the failure that the errback of the caller receives.
\<close>

theorem try_to_connect_propagates_last_failure:
  "(attempt = max_tries - 1 \<longrightarrow>
      connect_attempt (W (now s)) (log_event (Connecting attempt) s) f = (Inl e, s1) \<longrightarrow>
      try_to_connect W s f d max_tries attempt = (Inl e, s1)) \<and>
   (1 \<le> max_tries \<longrightarrow> try_to_connect W s f d max_tries 0 = (Inl e', s') \<longrightarrow>
      (\<exists>s0. now s0 = now s + nat (max_tries - 1) \<and>
         connect_attempt (W (now s0)) (log_event (Connecting (max_tries - 1)) s0) f =
           (Inl e', s')))"
proof (intro conjI impI)
  assume a: "attempt = max_tries - 1"
    and ca: "connect_attempt (W (now s)) (log_event (Connecting attempt) s) f = (Inl e, s1)"
  from a have lt: "attempt < max_tries" by simp
  show "try_to_connect W s f d max_tries attempt = (Inl e, s1)"
    using try_to_connect_step [where W = W and s = s and d = d, OF lt ca] a by simp
next
  assume "1 \<le> max_tries" and run: "try_to_connect W s f d max_tries 0 = (Inl e', s')"
  then have "0 < max_tries" by simp
  from try_to_connect_last_failure [OF this run]
  show "\<exists>s0. now s0 = now s + nat (max_tries - 1) \<and>
         connect_attempt (W (now s0)) (log_event (Connecting (max_tries - 1)) s0) f =
           (Inl e', s')"
    by simp
qed

theorem try_to_connect_propagates_last_failure_witness:
  "(0::int) = 1 - 1 \<and> (1::int) \<le> 1 \<and>
   connect_attempt (always never_world (now (init_connector (Tub 0))))
     (log_event (Connecting 0) (init_connector (Tub 0))) ''a.furl'' =
     (Inl (FURLError ''a.furl''),
      \<lparr>remote_refs = Map.empty, tub = Tub 0, furl = None, now = 0,
       events = [Connecting 0, FindFurl ''a.furl'']\<rparr>) \<and>
   try_to_connect (always never_world) (init_connector (Tub 0)) ''a.furl'' DELAY 1 0 =
     (Inl (FURLError ''a.furl''),
      \<lparr>remote_refs = Map.empty, tub = Tub 0, furl = None, now = 0,
       events = [Connecting 0, FindFurl ''a.furl'']\<rparr>) \<and>
   (\<exists>s0. now s0 = now (init_connector (Tub 0)) + nat (1 - 1) \<and>
      connect_attempt (always never_world (now s0)) (log_event (Connecting (1 - 1)) s0)
        ''a.furl'' =
      (Inl (FURLError ''a.furl''),
       \<lparr>remote_refs = Map.empty, tub = Tub 0, furl = None, now = 0,
        events = [Connecting 0, FindFurl ''a.furl'']\<rparr>))"
proof -
  let ?s = "init_connector (Tub 0)"
  let ?s1 = "\<lparr>remote_refs = Map.empty, tub = Tub 0, furl = None, now = 0,
              events = [Connecting 0, FindFurl ''a.furl'']\<rparr>"
  have ca: "connect_attempt (always never_world (now ?s)) (log_event (Connecting 0) ?s)
              ''a.furl'' = (Inl (FURLError ''a.furl''), ?s1)"
    by (simp add: connect_attempt_def never_world_def log_event_def init_connector_def
          always_def)
  note inst = try_to_connect_propagates_last_failure
         [where attempt = 0 and max_tries = 1 and W = "always never_world" and s = ?s
            and f = "''a.furl''" and e = "FURLError ''a.furl''" and ?s1.0 = ?s1
            and d = DELAY and e' = "FURLError ''a.furl''" and s' = ?s1]
  from inst ca
  have run: "try_to_connect (always never_world) ?s ''a.furl'' DELAY 1 0 =
          (Inl (FURLError ''a.furl''), ?s1)"
    by simp
  from inst run
  have "\<exists>s0. now s0 = now ?s + nat (1 - 1) \<and>
          connect_attempt (always never_world (now s0)) (log_event (Connecting (1 - 1)) s0)
            ''a.furl'' = (Inl (FURLError ''a.furl''), ?s1)"
    by simp
  with ca run show ?thesis by simp
qed

subsection \<open>The connection cache\<close>

lemma get_reference_hit:
  "remote_refs s X = Some r \<Longrightarrow> get_reference w s X = (Inr r, s)"
  by (simp add: get_reference_def)

lemma get_reference_saves:
  "get_reference w s X = (Inr r, s1) \<Longrightarrow> remote_refs s1 X = Some r"
  by (auto simp: get_reference_def save_ref_def log_event_def Let_def
           split: option.splits sum.splits)

lemma get_reference_keeps:
  "remote_refs s X = Some r \<Longrightarrow>
   remote_refs (snd (get_reference w s Y)) X = Some r \<and>
   GetReference X \<notin> set (new_events s (snd (get_reference w s Y)))"
  by (auto simp: get_reference_def save_ref_def log_event_def new_events_def Let_def
           split: option.splits sum.splits)

lemma get_reference_grows:
  "map_le (remote_refs s) (remote_refs (snd (get_reference w s Y)))"
  by (auto simp: get_reference_def save_ref_def log_event_def Let_def map_le_def
           split: option.splits sum.splits)

lemma get_reference_appends:
  "\<exists>evs. events (snd (get_reference w s Y)) = events s @ evs"
  by (auto simp: get_reference_def save_ref_def log_event_def Let_def
           split: option.splits sum.splits)

lemma get_references_appends:
  "\<exists>evs. events (get_references s calls) = events s @ evs"
proof (induction calls arbitrary: s)
  case Nil
  then show ?case by simp
next
  case (Cons c calls)
  obtain w Y where c: "c = (w, Y)" by (cases c)
  from get_reference_appends [of w s Y] Cons [of "snd (get_reference w s Y)"] c
  show ?case by auto
qed

lemma get_references_keeps:
  "remote_refs s X = Some r \<Longrightarrow>
   remote_refs (get_references s calls) X = Some r \<and>
   GetReference X \<notin> set (new_events s (get_references s calls))"
proof (induction calls arbitrary: s)
  case Nil
  then show ?case by (simp add: new_events_def)
next
  case (Cons c calls)
  obtain w Y where c: "c = (w, Y)" by (cases c)
  let ?s1 = "snd (get_reference w s Y)"
  from get_reference_keeps [OF Cons.prems, of w Y]
  have k1: "remote_refs ?s1 X = Some r" "GetReference X \<notin> set (new_events s ?s1)" by auto
  from Cons.IH [OF k1(1)]
  have k2: "remote_refs (get_references ?s1 calls) X = Some r"
    "GetReference X \<notin> set (new_events ?s1 (get_references ?s1 calls))" by auto
  obtain e1 where e1: "events ?s1 = events s @ e1" using get_reference_appends by blast
  obtain e2 where e2: "events (get_references ?s1 calls) = events ?s1 @ e2"
    using get_references_appends by blast
  show ?case using k1 k2 c e1 e2 by (simp add: new_events_def)
qed

lemma get_references_grows:
  "map_le (remote_refs s) (remote_refs (get_references s calls))"
proof (induction calls arbitrary: s)
  case Nil
  then show ?case by simp
next
  case (Cons c calls)
  obtain w Y where c: "c = (w, Y)" by (cases c)
  show ?case using c get_reference_grows [of s w Y] Cons [of "snd (get_reference w s Y)"]
    by (auto intro: map_le_trans)
qed

text \<open>
  C2. Let a call \<^verbatim>\<open>get_reference(X)\<close> connect successfully and return the reference
  \<open>r\<close>. Then, after any further calls of \<^verbatim>\<open>get_reference\<close> (for any descriptors, in
  any worlds), a call \<^verbatim>\<open>get_reference(X)\<close> returns the same \<open>r\<close> and leaves the
  connector as it is, whatever the world is by then, so the Tub is not asked again; nor
  have the calls in between asked the Tub for \<open>X\<close>. The cache is a dictionary, so it has
  at most one entry for a descriptor string, and it only grows: every entry that it holds
  is still there, unchanged, after any sequence of calls.
\<close>

theorem get_reference_cached:
  "(get_reference w s X = (Inr r, s1) \<longrightarrow>
      (let s2 = get_references s1 calls
       in get_reference w' s2 X = (Inr r, s2) \<and>
          GetReference X \<notin> set (new_events s1 s2))) \<and>
   map_le (remote_refs s0) (remote_refs (get_references s0 calls0))"
  using get_references_keeps [OF get_reference_saves, of w s X r s1 calls]
    get_references_grows [of s0 calls0]
  by (auto simp: Let_def intro: get_reference_hit)

theorem get_reference_cached_witness:
  "get_reference reachable_world (init_connector (Tub 0)) ''pb://x'' =
     (Inr 7, \<lparr>remote_refs = [''pb://x'' \<mapsto> 7], tub = Tub 0, furl = None, now = 0,
              events = [GetReference ''pb://x'']\<rparr>) \<and>
   (let s2 = get_references
               \<lparr>remote_refs = [''pb://x'' \<mapsto> 7], tub = Tub 0, furl = None, now = 0,
                events = [GetReference ''pb://x'']\<rparr>
               [(reachable_world, ''pb://y''), (never_world, ''pb://z'')]
    in get_reference never_world s2 ''pb://x'' = (Inr 7, s2))"
proof -
  let ?s1 = "\<lparr>remote_refs = [''pb://x'' \<mapsto> 7], tub = Tub 0, furl = None, now = 0,
              events = [GetReference ''pb://x'']\<rparr>"
  have first: "get_reference reachable_world (init_connector (Tub 0)) ''pb://x'' = (Inr 7, ?s1)"
    by (simp add: get_reference_def save_ref_def log_event_def init_connector_def
          reachable_world_def Let_def)
  from get_reference_cached
         [where w = reachable_world and s = "init_connector (Tub 0)" and X = "''pb://x''"
            and r = 7 and ?s1.0 = ?s1
            and calls = "[(reachable_world, ''pb://y''), (never_world, ''pb://z'')]"
            and w' = never_world] first
  show ?thesis by (simp add: Let_def)
qed

subsection \<open>The client adapter\<close>

text \<open>
  C6. For every remote reference \<open>rr\<close> that the connection has produced,
  \<^verbatim>\<open>_wrap_remote_reference\<close> makes exactly one remote call, \<^verbatim>\<open>get_client_name\<close> on
  \<open>rr\<close>. If that call returns a name that resolves to a local class and the class can
  be instantiated with \<open>rr\<close>, the result is that instance with its attribute
  \<^verbatim>\<open>tub\<close> set to the Tub of the connector. If the name does not resolve, the adapter
  fails with \<open>AdapterResolutionError\<close>. (This is the outcome of the adapter's own
  deferred; in \<^verbatim>\<open>get_client\<close> the errback \<^verbatim>\<open>_handle_error\<close> comes after it.)
\<close>

theorem wrap_remote_reference_adapts:
  "filter is_CallRemote (new_events s (snd (wrap_remote_reference w s rr))) =
     [CallRemote rr ''get_client_name''] \<and>
   (callRemote w rr ''get_client_name'' = Inr name \<longrightarrow>
      importable w name = Some client_interface \<longrightarrow> client_interface rr = Inr client \<longrightarrow>
      fst (wrap_remote_reference w s rr) = Inr (client\<lparr>client_tub := Some (tub s)\<rparr>)) \<and>
   (callRemote w rr ''get_client_name'' = Inr name' \<longrightarrow> importable w name' = None \<longrightarrow>
      fst (wrap_remote_reference w s rr) = Inl (AdapterResolutionError name'))"
  by (auto simp: wrap_remote_reference_def import_item_def adapt_def log_event_def
        new_events_def Let_def split: sum.splits option.splits)

theorem wrap_remote_reference_adapts_witness:
  "callRemote reachable_world 7 ''get_client_name'' = Inr ''mod.Client'' \<and>
   importable reachable_world ''mod.Client'' = Some plain_client \<and>
   plain_client 7 =
     Inr \<lparr>client_class = ''mod.Client'', remote_reference = 7, client_tub = None\<rparr> \<and>
   fst (wrap_remote_reference reachable_world (init_connector (Tub 3)) 7) =
     Inr \<lparr>client_class = ''mod.Client'', remote_reference = 7, client_tub = Some (Tub 3)\<rparr> \<and>
   callRemote (reachable_world\<lparr>importable := Map.empty\<rparr>) 7 ''get_client_name'' =
     Inr ''mod.Client'' \<and>
   importable (reachable_world\<lparr>importable := Map.empty\<rparr>) ''mod.Client'' = None \<and>
   fst (wrap_remote_reference (reachable_world\<lparr>importable := Map.empty\<rparr>)
          (init_connector (Tub 3)) 7) =
     Inl (AdapterResolutionError ''mod.Client'')"
proof -
  let ?c = "\<lparr>client_class = ''mod.Client'', remote_reference = 7, client_tub = None\<rparr>"
  let ?w = "reachable_world\<lparr>importable := Map.empty\<rparr>"
  have a: "callRemote reachable_world 7 ''get_client_name'' = Inr ''mod.Client''"
    "importable reachable_world ''mod.Client'' = Some plain_client"
    "plain_client 7 = Inr ?c"
    by (simp_all add: reachable_world_def plain_client_def)
  have b: "callRemote ?w 7 ''get_client_name'' = Inr ''mod.Client''"
    "importable ?w ''mod.Client'' = None"
    by (simp_all add: reachable_world_def)
  from wrap_remote_reference_adapts
         [where w = reachable_world and rr = 7 and name = "''mod.Client''"
            and client_interface = plain_client and s = "init_connector (Tub 3)"
            and client = ?c] a
  have c: "fst (wrap_remote_reference reachable_world (init_connector (Tub 3)) 7) =
     Inr \<lparr>client_class = ''mod.Client'', remote_reference = 7, client_tub = Some (Tub 3)\<rparr>"
    by (simp add: init_connector_def)
  from wrap_remote_reference_adapts
         [where w = ?w and rr = 7 and name' = "''mod.Client''"
            and s = "init_connector (Tub 3)"] b
  have d: "fst (wrap_remote_reference ?w (init_connector (Tub 3)) 7) =
     Inl (AdapterResolutionError ''mod.Client'')"
    by simp
  from a b c d show ?thesis by simp
qed

subsection \<open>Resolution without a file name\<close>

text \<open>
  C7. When \<^verbatim>\<open>furl_or_file\<close> gives no result (it is \<^verbatim>\<open>None\<close>, or it is not a
  valid FURL or FURL file) and \<^verbatim>\<open>furl_file_name\<close> is \<^verbatim>\<open>None\<close>,
  \<^verbatim>\<open>_find_furl\<close> raises \<^verbatim>\<open>FURLError\<close> at once: the only external call made is the
  check of \<^verbatim>\<open>furl_or_file\<close>, if there is one; no cluster directory is looked for, by
  name or by profile, whatever \<^verbatim>\<open>cluster_dir\<close>, \<^verbatim>\<open>profile\<close> and
  \<^verbatim>\<open>ipython_dir\<close> are.
\<close>

theorem find_furl_needs_furl_file_name:
  "(case furl_or_file of None \<Rightarrow> True | Some f \<Rightarrow> \<not> is_valid_furl_or_file E f) \<Longrightarrow>
   AsyncClientConnector_find_furl E profile cluster_dir furl_or_file None ipython_dir =
     (Inl (FURLError ''A furl_file_name must be provided if furl_or_file is not''),
      case furl_or_file of None \<Rightarrow> [] | Some f \<Rightarrow> [IsValidFurlOrFile f])"
  by (cases furl_or_file)
     (simp_all add: AsyncClientConnector_find_furl_def find_furl_by_name_def)

theorem find_furl_needs_furl_file_name_witness:
  "\<not> is_valid_furl_or_file rejecting_filesystem ''nothing.furl'' \<and>
   AsyncClientConnector_find_furl rejecting_filesystem (Some ''default'') (Some ''/c'')
     (Some ''nothing.furl'') None (Some ''/i'') =
     (Inl (FURLError ''A furl_file_name must be provided if furl_or_file is not''),
      [IsValidFurlOrFile ''nothing.furl''])"
  using find_furl_needs_furl_file_name
          [where furl_or_file = "Some ''nothing.furl''" and E = rejecting_filesystem
             and profile = "Some ''default''" and cluster_dir = "Some ''/c''"
             and ipython_dir = "Some ''/i''"]
  by (simp add: rejecting_filesystem_def)

subsection \<open>The life cycle of a cluster\<close>

text \<open>
  C8, as it is stated, fails in its third part. \<^verbatim>\<open>start\<close> succeeds on a new cluster;
  then \<^verbatim>\<open>stop\<close> is called, the launcher's stop command succeeds but the stop is not
  observed (the deferred of \<^verbatim>\<open>observe_stop\<close> fails), and \<^verbatim>\<open>gatherBoth\<close> consumes
  the failure: the deferred of \<^verbatim>\<open>stop\<close> succeeds, with the list of the two outcomes,
  and the state is still \<^verbatim>\<open>'running'\<close>.
\<close>

theorem stop_succeeds_still_running:
  "start working_launcher (init_cluster True) 2 =
     (Inr (), \<lparr>state = ''running'',
               launcher = Some \<lparr>work_dir = ''/tmp'', ipcluster_n = 2,
                                 ipcluster_subcommand = ''start''\<rparr>,
               auto_stop = True\<rparr>) \<and>
   fst (stop unobserved_launcher
     \<lparr>state = ''running'',
      launcher = Some \<lparr>work_dir = ''/tmp'', ipcluster_n = 2, ipcluster_subcommand = ''start''\<rparr>,
      auto_stop = True\<rparr>) = Inr [Inl (OtherError ''lost''), Inr ()] \<and>
   state (snd (stop unobserved_launcher
     \<lparr>state = ''running'',
      launcher = Some \<lparr>work_dir = ''/tmp'', ipcluster_n = 2, ipcluster_subcommand = ''start''\<rparr>,
      auto_stop = True\<rparr>)) = ''running''"
  by (simp add: start_def stop_def init_cluster_def working_launcher_def
        unobserved_launcher_def handle_start_def Let_def)

text \<open>
  C8, amended. \<^verbatim>\<open>stop\<close> on a cluster whose state is \<^verbatim>\<open>'before'\<close> or
  \<^verbatim>\<open>'after'\<close> fails with \<^verbatim>\<open>ClusterStateError\<close> and leaves the cluster as it is.
  \<^verbatim>\<open>start\<close> on a cluster whose state is \<^verbatim>\<open>'running'\<close> fails with
  \<^verbatim>\<open>ClusterStateError\<close> (and leaves the cluster as it is). After a successful
  \<^verbatim>\<open>start\<close> the state is \<^verbatim>\<open>'running'\<close> and the cluster has a launcher; a
  \<^verbatim>\<open>stop\<close> that follows leaves the state \<^verbatim>\<open>'after'\<close> if the launcher's stop
  observation succeeds (the deferred that \<^verbatim>\<open>observe_stop\<close> returns), and leaves it
  \<^verbatim>\<open>'running'\<close> if \<^verbatim>\<open>observe_stop\<close> raises or its deferred fails, whatever the
  deferred of \<^verbatim>\<open>stop\<close> itself does. When the observation succeeds and the launcher's
  stop command returns a deferred, the result of \<^verbatim>\<open>stop\<close> is what \<^verbatim>\<open>gatherBoth\<close>
  makes of the two.
\<close>

theorem cluster_lifecycle:
  "(state c = ''before'' \<or> state c = ''after'' \<longrightarrow>
      stop L c = (Inl (ClusterStateError ''Cluster not running''), c)) \<and>
   (state c' = ''running'' \<longrightarrow>
      start L c' n = (Inl (ClusterStateError ''Cluster is already running''), c')) \<and>
   (start L c0 n = (Inr u, c1) \<longrightarrow>
      state c1 = ''running'' \<and>
      (\<exists>l. launcher c1 = Some l \<and>
         (launcher_observe_stop L' l = Returns (Inr v) \<longrightarrow>
            state (snd (stop L' c1)) = ''after'' \<and>
            (launcher_stop L' l = Returns d2 \<longrightarrow>
               fst (stop L' c1) = gatherBoth L' [Inr (), d2])) \<and>
         (launcher_observe_stop L'' l \<noteq> Returns (Inr ()) \<longrightarrow>
            state (snd (stop L'' c1)) = ''running'')))"
  by (auto simp: start_def stop_def handle_start_def handle_stop_def Let_def
           split: sum.splits if_splits call.splits)

theorem cluster_lifecycle_witness:
  "state (init_cluster True) = ''before'' \<and>
   stop working_launcher (init_cluster True) =
     (Inl (ClusterStateError ''Cluster not running''), init_cluster True) \<and>
   start working_launcher (init_cluster True) 2 =
     (Inr (), \<lparr>state = ''running'',
               launcher = Some \<lparr>work_dir = ''/tmp'', ipcluster_n = 2,
                                 ipcluster_subcommand = ''start''\<rparr>,
               auto_stop = True\<rparr>) \<and>
   start working_launcher
     \<lparr>state = ''running'',
      launcher = Some \<lparr>work_dir = ''/tmp'', ipcluster_n = 2, ipcluster_subcommand = ''start''\<rparr>,
      auto_stop = True\<rparr> 2 =
     (Inl (ClusterStateError ''Cluster is already running''),
      \<lparr>state = ''running'',
       launcher = Some \<lparr>work_dir = ''/tmp'', ipcluster_n = 2, ipcluster_subcommand = ''start''\<rparr>,
       auto_stop = True\<rparr>) \<and>
   launcher_observe_stop working_launcher
     \<lparr>work_dir = ''/tmp'', ipcluster_n = 2, ipcluster_subcommand = ''start''\<rparr> =
     Returns (Inr ()) \<and>
   launcher_stop working_launcher
     \<lparr>work_dir = ''/tmp'', ipcluster_n = 2, ipcluster_subcommand = ''start''\<rparr> =
     Returns (Inr ()) \<and>
   stop working_launcher
     \<lparr>state = ''running'',
      launcher = Some \<lparr>work_dir = ''/tmp'', ipcluster_n = 2, ipcluster_subcommand = ''start''\<rparr>,
      auto_stop = True\<rparr> =
     (Inr [Inr (), Inr ()],
      \<lparr>state = ''after'',
       launcher = Some \<lparr>work_dir = ''/tmp'', ipcluster_n = 2, ipcluster_subcommand = ''start''\<rparr>,
       auto_stop = True\<rparr>) \<and>
   launcher_observe_stop unobserved_launcher
     \<lparr>work_dir = ''/tmp'', ipcluster_n = 2, ipcluster_subcommand = ''start''\<rparr> \<noteq>
     Returns (Inr ()) \<and>
   state (snd (stop unobserved_launcher
     \<lparr>state = ''running'',
      launcher = Some \<lparr>work_dir = ''/tmp'', ipcluster_n = 2, ipcluster_subcommand = ''start''\<rparr>,
      auto_stop = True\<rparr>)) = ''running''"
proof -
  let ?l = "\<lparr>work_dir = ''/tmp'', ipcluster_n = 2, ipcluster_subcommand = ''start''\<rparr>"
  let ?c1 = "\<lparr>state = ''running'', launcher = Some ?l, auto_stop = True\<rparr>"
  let ?c2 = "\<lparr>state = ''after'', launcher = Some ?l, auto_stop = True\<rparr>"
  have before: "state (init_cluster True) = ''before''" by (simp add: init_cluster_def)
  have run: "state ?c1 = ''running''" by simp
  have started: "start working_launcher (init_cluster True) 2 = (Inr (), ?c1)"
    by (simp add: start_def init_cluster_def working_launcher_def handle_start_def Let_def)
  have observed: "launcher_observe_stop working_launcher ?l = Returns (Inr ())"
    and stopped: "launcher_stop working_launcher ?l = Returns (Inr ())"
    and gathers: "gatherBoth working_launcher [Inr (), Inr ()] = Inr [Inr (), Inr ()]"
    and lost: "launcher_observe_stop unobserved_launcher ?l \<noteq> Returns (Inr ())"
    by (simp_all add: working_launcher_def unobserved_launcher_def)
  note inst = cluster_lifecycle
    [where c = "init_cluster True" and L = working_launcher and c' = ?c1 and n = 2
       and ?c0.0 = "init_cluster True" and u = "()" and ?c1.0 = ?c1
       and L' = working_launcher and v = "()" and ?d2.0 = "Inr ()"
       and L'' = unobserved_launcher]
  from inst before have 1: "stop working_launcher (init_cluster True) =
     (Inl (ClusterStateError ''Cluster not running''), init_cluster True)" by blast
  from inst run have 2: "start working_launcher ?c1 2 =
     (Inl (ClusterStateError ''Cluster is already running''), ?c1)" by blast
  from inst started observed stopped gathers
  have 3: "state (snd (stop working_launcher ?c1)) = ''after''"
    "fst (stop working_launcher ?c1) = Inr [Inr (), Inr ()]"
    by auto
  have "snd (stop working_launcher ?c1) = ?c2"
    by (simp add: stop_def working_launcher_def handle_stop_def Let_def)
  with 3 have 4: "stop working_launcher ?c1 = (Inr [Inr (), Inr ()], ?c2)"
    by (simp add: prod_eq_iff)
  from inst started lost
  have 5: "state (snd (stop unobserved_launcher ?c1)) = ''running''"
    by auto
  from before 1 started 2 observed stopped 4 lost 5 show ?thesis by simp
qed

subsection \<open>The arguments of the blocking \<^verbatim>\<open>get_client\<close>\<close>

text \<open>
  C10. \<^verbatim>\<open>ClientConnector.get_client\<close> passes its six arguments by position to
  \<^verbatim>\<open>AsyncClientConnector.get_client\<close>, whose fourth parameter is
  \<^verbatim>\<open>furl_file_name\<close>. So the asynchronous method runs with \<^verbatim>\<open>furl_file_name\<close>
  bound to the caller's \<^verbatim>\<open>ipython_dir\<close>, \<^verbatim>\<open>ipython_dir\<close> to the caller's
  \<^verbatim>\<open>delay\<close>, \<^verbatim>\<open>delay\<close> to the caller's \<^verbatim>\<open>max_tries\<close>, and \<^verbatim>\<open>max_tries\<close> to
  its default 9, whatever the caller gave. For no arguments at all is this the binding in
  which each argument reaches the parameter of its own name.
\<close>

theorem ClientConnector_get_client_misaligned:
  "ClientConnector_get_client profile cluster_dir furl_or_file ipython_dir delay max_tries =
     Inr [(''profile'', profile), (''cluster_dir'', cluster_dir),
          (''furl_or_file'', furl_or_file), (''furl_file_name'', ipython_dir),
          (''ipython_dir'', delay), (''delay'', max_tries), (''max_tries'', PyInt 9)] \<and>
   ClientConnector_get_client profile cluster_dir furl_or_file ipython_dir delay max_tries \<noteq>
     Inr (aligned_binding profile cluster_dir furl_or_file ipython_dir delay max_tries)"
  by (auto simp: ClientConnector_get_client_def AsyncClientConnector_get_client_signature_def
        aligned_binding_def MAX_TRIES_def)

subsection \<open>The error of an exhausted retry budget\<close>

lemma handle_error_message_parts:
  "handle_error_message furl_file =
     ''Could not connect to the controller using the FURL file. This usually means that i) '' @
     ''the controller was not started'' @
     ('' or ii) '' @ ''a firewall was blocking the client from connecting to the controller'' @
      '': '' @ furl_file)"
  "handle_error_message furl_file =
     (''Could not connect to the controller using the FURL file. This usually means that i) '' @
      ''the controller was not started or ii) '') @
     ''a firewall was blocking the client from connecting to the controller'' @
     ('': '' @ furl_file)"
  by (simp_all add: handle_error_message_def)

lemma handle_error_message_causes:
  "sublist ''the controller was not started'' (handle_error_message furl_file)"
  "sublist ''a firewall was blocking the client from connecting to the controller''
     (handle_error_message furl_file)"
  "suffix furl_file (handle_error_message furl_file)"
proof -
  show "sublist ''the controller was not started'' (handle_error_message furl_file)"
    unfolding handle_error_message_parts(1) by (rule sublist_appendI)
  show "sublist ''a firewall was blocking the client from connecting to the controller''
     (handle_error_message furl_file)"
    unfolding handle_error_message_parts(2) by (rule sublist_appendI)
  show "suffix furl_file (handle_error_message furl_file)"
    by (simp add: handle_error_message_def suffix_def)
qed

lemma never_get_client:
  "get_client accepting_filesystem (always never_world) (init_connector (Tub 0))
     (Some ''default'') None (Some ''a.furl'') None None DELAY 3 =
   (Inl (ClientConnectorError (handle_error_message ''a.furl'')),
    \<lparr>remote_refs = Map.empty, tub = Tub 0, furl = None, now = 2,
     events = [Connecting 0, FindFurl ''a.furl'', Sleep DELAY, Connecting 1,
               FindFurl ''a.furl'', Sleep (Finite 5404319552844596 (- 54)), Connecting 2, FindFurl ''a.furl'']\<rparr>)"
  by (simp add: get_client_def AsyncClientConnector_find_furl_def accepting_filesystem_def
        rejecting_filesystem_def never_run handle_error_def)

text \<open>
  C3, as it is stated, fails. The FURL file \<^verbatim>\<open>a.furl\<close> never becomes valid and
  \<^verbatim>\<open>max_tries\<close> is 3: \<^verbatim>\<open>get_client\<close> makes three attempts and fails with a
  \<^verbatim>\<open>ClientConnectorError\<close> whose message does not contain the attempt count.
\<close>

theorem get_client_error_omits_attempt_count:
  "fst (get_client accepting_filesystem (always never_world) (init_connector (Tub 0))
     (Some ''default'') None (Some ''a.furl'') None None DELAY 3) =
     Inl (ClientConnectorError (handle_error_message ''a.furl'')) \<and>
   attempts_made (events (snd (get_client accepting_filesystem (always never_world)
     (init_connector (Tub 0)) (Some ''default'') None (Some ''a.furl'') None None
     DELAY 3))) = 3 \<and>
   \<not> sublist (repr_int 3) (handle_error_message ''a.furl'')"
proof -
  have "CHR ''3'' \<notin> set (handle_error_message ''a.furl'')"
    by (simp add: handle_error_message_def)
  then have "\<not> sublist ''3'' (handle_error_message ''a.furl'')"
    using set_mono_sublist [of "''3''" "handle_error_message ''a.furl''"] by auto
  then show ?thesis
    by (simp add: never_get_client attempts_made_def repr_int_def repr_nat.simps)
qed

text \<open>
  C3, amended. When \<^verbatim>\<open>_find_furl\<close> has found the FURL file and the retry loop ends
  without a connection, \<^verbatim>\<open>get_client\<close> fails with one \<^verbatim>\<open>ClientConnectorError\<close>.
  Its message is a fixed text followed by the name of the FURL file; the text gives both
  plausible causes, "the controller was not started" and "a firewall was blocking the
  client from connecting to the controller", as what the failure "usually means". The
  message depends on the FURL file only: neither the attempt count nor the failure that
  ended the loop is part of it.
\<close>

theorem get_client_exhausted_error:
  assumes "fst (AsyncClientConnector_find_furl E profile cluster_dir furl_or_file
                  furl_file_name ipython_dir) = Inr furl_file"
    and "fst (try_to_connect W s furl_file delay max_tries 0) = Inl e"
  shows "fst (get_client E W s profile cluster_dir furl_or_file furl_file_name ipython_dir
                delay max_tries) =
           Inl (ClientConnectorError (handle_error_message furl_file)) \<and>
         suffix furl_file (handle_error_message furl_file) \<and>
         sublist ''the controller was not started'' (handle_error_message furl_file) \<and>
         sublist ''a firewall was blocking the client from connecting to the controller''
           (handle_error_message furl_file)"
  using assms handle_error_message_causes [of furl_file]
  by (auto simp: get_client_def handle_error_def split: prod.splits)

theorem get_client_exhausted_error_witness:
  "fst (AsyncClientConnector_find_furl accepting_filesystem (Some ''default'') None
          (Some ''a.furl'') None None) = Inr ''a.furl'' \<and>
   fst (try_to_connect (always never_world) (init_connector (Tub 0)) ''a.furl'' DELAY 3 0) =
     Inl (FURLError ''a.furl'') \<and>
   fst (get_client accepting_filesystem (always never_world) (init_connector (Tub 0))
     (Some ''default'') None (Some ''a.furl'') None None DELAY 3) =
     Inl (ClientConnectorError
       (''Could not connect to the controller using the FURL file. This usually means '' @
        ''that i) the controller was not started or ii) a firewall was blocking the client '' @
        ''from connecting to the controller: a.furl''))"
proof -
  have a: "fst (AsyncClientConnector_find_furl accepting_filesystem (Some ''default'') None
          (Some ''a.furl'') None None) = Inr ''a.furl''"
    by (simp add: AsyncClientConnector_find_furl_def accepting_filesystem_def
          rejecting_filesystem_def)
  have b: "fst (try_to_connect (always never_world) (init_connector (Tub 0)) ''a.furl''
                  DELAY 3 0) = Inl (FURLError ''a.furl'')"
    by (simp add: never_run)
  from get_client_exhausted_error [OF a b]
  show ?thesis using a b by (simp add: handle_error_message_def)
qed

subsection \<open>Reading the FURL file on every attempt\<close>

lemma is_Connecting_read: "is_Connecting e \<Longrightarrow> is_read e"
  by (cases e) auto

lemma get_reference_no_reads:
  "get_reference w s f = (r, s1) \<Longrightarrow>
   \<exists>evs. events s1 = events s @ evs \<and> filter is_read evs = []"
  by (auto simp: get_reference_def save_ref_def log_event_def Let_def
           split: option.splits sum.splits)

lemma connect_attempt_reads:
  "connect_attempt w s f = (r, s1) \<Longrightarrow>
   \<exists>evs. events s1 = events s @ FindFurl f # evs \<and> filter is_read evs = []"
  by (auto simp: connect_attempt_def log_event_def Let_def
           split: option.splits sum.splits prod.splits dest!: get_reference_no_reads)

lemma reads_upt:
  "concat (map (\<lambda>i. [Connecting (a + int i), FindFurl f]) [0..<Suc n]) =
   Connecting a # FindFurl f # concat (map (\<lambda>i. [Connecting (a + 1 + int i), FindFurl f]) [0..<n])"
proof -
  have "[0..<Suc n] = 0 # map Suc [0..<n]"
    by (simp add: upt_conv_Cons map_Suc_upt del: upt_Suc)
  then show ?thesis by (simp add: comp_def algebra_simps del: upt_Suc)
qed

lemma try_to_connect_reads:
  "attempt < max_tries \<Longrightarrow> try_to_connect W s f d max_tries attempt = (r, s') \<Longrightarrow>
   \<exists>evs. events s' = events s @ evs \<and>
      filter is_read evs =
        concat (map (\<lambda>i. [Connecting (attempt + int i), FindFurl f]) [0..<attempts_made evs])"
proof (induction W s f d max_tries attempt arbitrary: r s' rule: try_to_connect.induct)
  case (1 W s f d m a)
  obtain r1 s1 where ca: "connect_attempt (W (now s)) (log_event (Connecting a) s) f = (r1, s1)"
    by (cases "connect_attempt (W (now s)) (log_event (Connecting a) s) f")
  note step = try_to_connect_step [where W = W and s = s and d = d, OF 1(2) ca]
  from connect_attempt_reads [OF ca] obtain evs1 where
    ev1: "events s1 = events s @ Connecting a # FindFurl f # evs1" "filter is_read evs1 = []"
    by (auto simp: log_event_def)
  have none1: "filter is_Connecting evs1 = []"
    using ev1(2) by (auto simp: filter_empty_conv dest: is_Connecting_read)
  show ?case
  proof (cases "(\<exists>rr. r1 = Inr rr) \<or> a = m - 1")
    case True
    then have "s' = s1" using 1(3) step by (auto split: sum.splits)
    then show ?thesis using ev1 none1
      by (intro exI [of _ "Connecting a # FindFurl f # evs1"])
         (simp add: attempts_made_def)
  next
    case False
    then obtain e where r1: "r1 = Inl e" and na: "a \<noteq> m - 1" by (cases r1) auto
    have rec: "try_to_connect W (sleep_deferred d s1) f (times_1_5 d) m (a + 1) = (r, s')"
      using 1(3) step r1 na by simp
    have lt: "a + 1 < m" using 1(2) na by simp
    from "1.IH" [OF 1(2) ca [symmetric] r1 na lt rec]
    obtain evs where n: "events s' = events (sleep_deferred d s1) @ evs"
      "filter is_read evs =
         concat (map (\<lambda>i. [Connecting (a + 1 + int i), FindFurl f]) [0..<attempts_made evs])"
      by auto
    let ?all = "Connecting a # FindFurl f # evs1 @ Sleep d # evs"
    have am: "attempts_made ?all = Suc (attempts_made evs)"
      using none1 by (simp add: attempts_made_def)
    have "filter is_read ?all = Connecting a # FindFurl f # filter is_read evs"
      using ev1(2) by simp
    then have "filter is_read ?all =
        concat (map (\<lambda>i. [Connecting (a + int i), FindFurl f]) [0..<attempts_made ?all])"
      unfolding am reads_upt n(2) by simp
    moreover have "events s' = events s @ ?all"
      using n(1) ev1(1) by (simp add: sleep_deferred_def log_event_def)
    ultimately show ?thesis by blast
  qed
qed

lemma try_to_connect_file_flushed:
  assumes budget: "k + 1 < max_tries"
    and file_backed: "\<not> is_valid_furl path"
    and read0: "fcutil_find_furl (W (now s)) path = find_furl is_valid_furl files0 path"
    and empty0: "files0 path = Some []"
    and read1: "fcutil_find_furl (W (Suc (now s))) path = find_furl is_valid_furl files1 path"
    and valid1: "files1 path = Some content" "content \<noteq> []" "is_valid_furl content"
    and connects: "case remote_refs s content of
                     Some r \<Rightarrow> r = rr
                   | None \<Rightarrow> tub_getReference (W (Suc (now s))) content = Inr rr"
  shows "fst (try_to_connect W s path d max_tries k) = Inr rr \<and>
         furl (snd (try_to_connect W s path d max_tries k)) = Some content \<and>
         new_events s (snd (try_to_connect W s path d max_tries k)) =
           [Connecting k, FindFurl path, Sleep d, Connecting (k + 1), FindFurl path] @
           (case remote_refs s content of Some r \<Rightarrow> [] | None \<Rightarrow> [GetReference content]) @
           [Connected path]"
proof -
  let ?s0 = "log_event (FindFurl path) (log_event (Connecting k) s)"
  have lt0: "k < max_tries" using budget by simp
  have nl: "k \<noteq> max_tries - 1" using budget by simp
  have ca0: "connect_attempt (W (now s)) (log_event (Connecting k) s) path =
               (Inl (FURLError path), ?s0)"
    using file_backed read0 empty0
    by (simp add: connect_attempt_def find_furl_def log_event_def)
  have step0: "try_to_connect W s path d max_tries k =
                 try_to_connect W (sleep_deferred d ?s0) path (times_1_5 d) max_tries (k + 1)"
    using try_to_connect_step [where W = W and s = s and d = d, OF lt0 ca0] nl by simp
  let ?s1 = "sleep_deferred d ?s0"
  have now1: "now ?s1 = Suc (now s)" by (simp add: sleep_deferred_def log_event_def)
  have ff1: "fcutil_find_furl (W (now ?s1)) path = Inr content"
    using file_backed read1 valid1 now1 by (simp add: find_furl_def)
  obtain r2 s2 where ca1:
    "connect_attempt (W (now ?s1)) (log_event (Connecting (k + 1)) ?s1) path = (r2, s2)"
    by (cases "connect_attempt (W (now ?s1)) (log_event (Connecting (k + 1)) ?s1) path")
  have res: "r2 = Inr rr \<and> furl s2 = Some content \<and>
         new_events s s2 =
           [Connecting k, FindFurl path, Sleep d, Connecting (k + 1), FindFurl path] @
           (case remote_refs s content of Some r \<Rightarrow> [] | None \<Rightarrow> [GetReference content]) @
           [Connected path]"
    using ca1 ff1 connects now1
    by (auto simp: connect_attempt_def get_reference_def save_ref_def log_event_def
          sleep_deferred_def new_events_def Let_def split: option.splits)
  have "try_to_connect W ?s1 path (times_1_5 d) max_tries (k + 1) = (Inr rr, s2)"
    using try_to_connect_step [where W = W and s = ?s1 and d = "times_1_5 d", OF budget ca1] res
    by simp
  with step0 res show ?thesis by simp
qed


text \<open>
  C9. Every attempt of the retry loop starts by calling \<^verbatim>\<open>find_furl\<close> on the
  descriptor source, in the world as it is at that moment: in the trace of a run the
  attempts and the reads alternate, each attempt being followed by its read. So, for a
  source that is a file (not itself a FURL): if the file is empty when attempt \<open>k\<close>
  reads it, holds a valid FURL after the suspension that follows, attempt \<open>k + 1\<close> is
  within the budget, and the FURL can be reached (it is cached, or the Tub connects),
  then attempt \<open>k\<close> fails, the loop sleeps once, attempt \<open>k + 1\<close> reads the file
  again, asks the cache with what it has read, and the loop returns the reference.
\<close>

theorem try_to_connect_rereads_file:
  "(attempt < max_tries \<longrightarrow>
      (let evs = new_events s (snd (try_to_connect W s path d max_tries attempt))
       in filter is_read evs =
            concat (map (\<lambda>i. [Connecting (attempt + int i), FindFurl path])
                      [0..<attempts_made evs]))) \<and>
   (k + 1 < max_tries \<longrightarrow> \<not> is_valid_furl path \<longrightarrow>
    fcutil_find_furl (W (now s)) path = find_furl is_valid_furl files0 path \<longrightarrow>
    files0 path = Some [] \<longrightarrow>
    fcutil_find_furl (W (Suc (now s))) path = find_furl is_valid_furl files1 path \<longrightarrow>
    files1 path = Some content \<longrightarrow> content \<noteq> [] \<longrightarrow> is_valid_furl content \<longrightarrow>
    (case remote_refs s content of
       Some r \<Rightarrow> r = rr
     | None \<Rightarrow> tub_getReference (W (Suc (now s))) content = Inr rr) \<longrightarrow>
    fst (try_to_connect W s path d max_tries k) = Inr rr \<and>
    furl (snd (try_to_connect W s path d max_tries k)) = Some content \<and>
    new_events s (snd (try_to_connect W s path d max_tries k)) =
      [Connecting k, FindFurl path, Sleep d, Connecting (k + 1), FindFurl path] @
      (case remote_refs s content of Some r \<Rightarrow> [] | None \<Rightarrow> [GetReference content]) @
      [Connected path])"
proof -
  have general: "attempt < max_tries \<longrightarrow>
      (let evs = new_events s (snd (try_to_connect W s path d max_tries attempt))
       in filter is_read evs =
            concat (map (\<lambda>i. [Connecting (attempt + int i), FindFurl path])
                      [0..<attempts_made evs]))"
  proof
    assume lt: "attempt < max_tries"
    obtain r s' where run: "try_to_connect W s path d max_tries attempt = (r, s')"
      by (cases "try_to_connect W s path d max_tries attempt")
    from try_to_connect_reads [OF lt run]
    show "let evs = new_events s (snd (try_to_connect W s path d max_tries attempt))
          in filter is_read evs =
               concat (map (\<lambda>i. [Connecting (attempt + int i), FindFurl path])
                         [0..<attempts_made evs])"
      using run by (auto simp: new_events_def Let_def)
  qed
  show ?thesis
    using general
      try_to_connect_file_flushed [of k max_tries is_valid_furl path W s files0 files1 content
        rr d]
    by blast
qed

theorem try_to_connect_rereads_file_witness:
  "(0::int) < 5 \<and> (0::int) + 1 < 5 \<and> \<not> is_furl ''a.furl'' \<and>
   fcutil_find_furl (flushing_world (now (init_connector (Tub 0)))) ''a.furl'' =
     find_furl is_furl [''a.furl'' \<mapsto> []] ''a.furl'' \<and>
   fcutil_find_furl (flushing_world (Suc (now (init_connector (Tub 0))))) ''a.furl'' =
     find_furl is_furl [''a.furl'' \<mapsto> ''pb://x@h:1/y''] ''a.furl'' \<and>
   is_furl ''pb://x@h:1/y'' \<and>
   remote_refs (init_connector (Tub 0)) ''pb://x@h:1/y'' = None \<and>
   tub_getReference (flushing_world (Suc (now (init_connector (Tub 0))))) ''pb://x@h:1/y'' =
     Inr 7 \<and>
   fst (try_to_connect flushing_world (init_connector (Tub 0)) ''a.furl'' DELAY 5 0) =
     Inr 7 \<and>
   new_events (init_connector (Tub 0))
     (snd (try_to_connect flushing_world (init_connector (Tub 0)) ''a.furl'' DELAY 5 0)) =
     [Connecting 0, FindFurl ''a.furl'', Sleep DELAY, Connecting 1, FindFurl ''a.furl'',
      GetReference ''pb://x@h:1/y'', Connected ''a.furl'']"
proof -
  let ?s = "init_connector (Tub 0)"
  have h: "\<not> is_furl ''a.furl''" "is_furl ''pb://x@h:1/y''"
    "fcutil_find_furl (flushing_world (now ?s)) ''a.furl'' =
       find_furl is_furl [''a.furl'' \<mapsto> []] ''a.furl''"
    "fcutil_find_furl (flushing_world (Suc (now ?s))) ''a.furl'' =
       find_furl is_furl [''a.furl'' \<mapsto> ''pb://x@h:1/y''] ''a.furl''"
    "remote_refs ?s ''pb://x@h:1/y'' = None"
    "tub_getReference (flushing_world (Suc (now ?s))) ''pb://x@h:1/y'' = Inr 7"
    by (simp_all add: is_furl_def flushing_world_def reachable_world_def init_connector_def)
  note inst = try_to_connect_rereads_file
    [where attempt = 0 and max_tries = 5 and s = ?s and W = flushing_world
       and path = "''a.furl''" and d = DELAY and k = 0 and is_valid_furl = is_furl
       and ?files0.0 = "[''a.furl'' \<mapsto> []]"
       and ?files1.0 = "[''a.furl'' \<mapsto> ''pb://x@h:1/y'']"
       and content = "''pb://x@h:1/y''" and rr = 7]
  from inst h
  have "fst (try_to_connect flushing_world ?s ''a.furl'' DELAY 5 0) = Inr 7 \<and>
        new_events ?s (snd (try_to_connect flushing_world ?s ''a.furl'' DELAY 5 0)) =
          [Connecting 0, FindFurl ''a.furl'', Sleep DELAY, Connecting 1,
           FindFurl ''a.furl'', GetReference ''pb://x@h:1/y'', Connected ''a.furl'']"
    by simp
  with h show ?thesis by simp
qed

end
